theory Spec2Isabelle
  imports
    Complex_Main
    "HOL-Library.Char_ord"
    "HOL-Library.List_Lexorder"
begin

section \<open>Text helpers of the Python runtime\<close>

text \<open>
  Python strings are modelled as \<open>string\<close>; a character whose code is 128 or more stands
  for a non-ASCII code point.  All keywords and table keys of the program are ASCII, and
  \<open>str.lower\<close> is modelled on the ASCII letters (other characters are kept).
\<close>

definition lower_char :: "char \<Rightarrow> char" where
  "lower_char c =
     (case map_of (zip ''ABCDEFGHIJKLMNOPQRSTUVWXYZ'' ''abcdefghijklmnopqrstuvwxyz'') c of
        None \<Rightarrow> c
      | Some l \<Rightarrow> l)"

definition lower :: "string \<Rightarrow> string" where
  "lower s = map lower_char s"



fun starts_with :: "string \<Rightarrow> string \<Rightarrow> bool" where
  "starts_with [] s = True"
| "starts_with (p # ps) [] = False"
| "starts_with (p # ps) (c # cs) = (p = c \<and> starts_with ps cs)"

text \<open>\<open>sub in s\<close> on Python strings.\<close>

fun str_contains :: "string \<Rightarrow> string \<Rightarrow> bool" where
  "str_contains sub [] = (sub = [])"
| "str_contains sub (c # cs) = (starts_with sub (c # cs) \<or> str_contains sub cs)"

section \<open>Numbers\<close>

text \<open>
  Amounts and scores are \<open>float\<close> in the program; they are modelled as exact real numbers.
  \<open>round(x, ndigits)\<close> rounds to the nearest multiple of \<open>10 ^ -ndigits\<close>, ties to even.
\<close>

definition round_half_even :: "real \<Rightarrow> int" where
  "round_half_even x =
     (let f = \<lfloor>x\<rfloor>; d = x - of_int f in
      if d < 1 / 2 then f
      else if 1 / 2 < d then f + 1
      else if even f then f else f + 1)"

definition py_round :: "real \<Rightarrow> nat \<Rightarrow> real" where
  "py_round x ndigits = of_int (round_half_even (x * 10 ^ ndigits)) / 10 ^ ndigits"

section \<open>Data model\<close>

type_synonym timestamp = int

text \<open>A row of \<open>self.df\<close>; \<open>idx\<close> is its index label, \<open>None\<close> in \<open>Date\<close> is \<open>NaT\<close>.\<close>

record row =
  idx :: nat
  Date :: "timestamp option"
  Amount :: real
  Category :: string
  Description :: string
  IsIncome :: bool

record dataframe =
  columns :: "string list"
  rows :: "row list"

text \<open>The formatted warning strings, one constructor per f-string of the program.\<close>

datatype warning =
    RemovedFuture nat
  | DateParsingError string
  | CorrectedIncomeSign nat
  | ExtremeOutliers nat
  | PotentialDuplicates nat

datatype error = FileNotFoundError | KeyError "string list" | TypeError string

datatype assessment = Essential | Important | Discretionary | CouldCut

record rating =
  date :: "timestamp option"
  description :: string
  amount :: real
  necessity :: real
  worth_it_rating :: real
  waste_potential :: real
  assessment :: assessment

record recurring =
  rp_description :: string
  rp_count :: nat
  average_amount :: real
  rp_category :: string

record analyzer =
  df :: dataframe
  warnings :: "warning list"
  recurring_payments :: "recurring list"
  transactions_with_ratings :: "rating list"
  necessity_scores :: "(string \<times> real) list"

section \<open>Necessity scoring\<close>

text \<open>The dictionary literal assigned to \<open>self.necessity_scores\<close> in \<open>__init__\<close>.\<close>

definition initial_necessity_scores :: "(string \<times> real) list" where
  "initial_necessity_scores =
     [(''groceries'', 95 / 100),
      (''food'', 95 / 100),
      (''rent'', 95 / 100),
      (''utilities'', 95 / 100),
      (''housing'', 95 / 100),
      (''healthcare'', 90 / 100),
      (''transport'', 85 / 100),
      (''transportation'', 85 / 100),
      (''insurance'', 85 / 100),
      (''education'', 80 / 100),
      (''childcare'', 85 / 100),
      (''phone'', 70 / 100),
      (''internet'', 75 / 100),
      (''income'', 1),
      (''salary'', 1),
      (''gym'', 40 / 100),
      (''entertainment'', 30 / 100),
      (''dining'', 35 / 100),
      (''eating out'', 35 / 100),
      (''hobbies'', 25 / 100),
      (''subscriptions'', 20 / 100),
      (''shopping'', 15 / 100),
      (''other'', 50 / 100)]"

text \<open>\<open>dict.get(key, default)\<close> on a dictionary given by its items.\<close>

definition dict_get :: "('k \<times> 'v) list \<Rightarrow> 'k \<Rightarrow> 'v \<Rightarrow> 'v" where
  "dict_get d k dflt = (case map_of d k of None \<Rightarrow> dflt | Some v \<Rightarrow> v)"

text \<open>The argument is \<open>None\<close> for Python's \<open>None\<close>.\<close>

definition get_necessity_score :: "analyzer \<Rightarrow> string option \<Rightarrow> real" where
  "get_necessity_score self category =
     (let cat = (case category of Some c \<Rightarrow> lower c | None \<Rightarrow> ''other'')
      in dict_get (necessity_scores self) cat (50 / 100))"

section \<open>Ingestion\<close>

text \<open>
  The table read from the CSV file.  A cell of \<open>raw_Date\<close> is the value
  \<open>pd.to_datetime(..., errors='coerce')\<close> gives for it (\<open>None\<close> is \<open>NaT\<close>); the parsed
  column is timezone-aware (\<open>tz_aware\<close>) when its cells carry a UTC offset.  A cell of
  \<open>raw_Amount\<close> is the value \<open>pd.to_numeric(..., errors='coerce')\<close> gives (\<open>None\<close> is
  \<open>NaN\<close>); a text cell is \<open>None\<close> when it is missing.  Index labels are the row positions.
\<close>

record raw_row =
  raw_Date :: "timestamp option"
  raw_Amount :: "real option"
  raw_Category :: "string option"
  raw_Description :: "string option"

record raw_dataframe =
  raw_columns :: "string list"
  tz_aware :: bool
  raw_rows :: "raw_row list"

section \<open>Validation and correction\<close>

text \<open>
  \<open>self.df['Date'] > today\<close>: \<open>today\<close> is timezone-naive, and pandas raises \<open>TypeError\<close>
  when a timezone-aware column is ordered against it; \<open>NaT > today\<close> is \<open>False\<close>.
\<close>

definition series_gt :: "raw_dataframe \<Rightarrow> timestamp \<Rightarrow> error + bool list" where
  "series_gt d today =
     (if tz_aware d then Inl (TypeError ''Invalid comparison'')
      else Inr (map (\<lambda>r. case raw_Date r of None \<Rightarrow> False | Some t \<Rightarrow> today < t) (raw_rows d)))"

fun error_text :: "error \<Rightarrow> string" where
  "error_text FileNotFoundError = []"
| "error_text (KeyError ks) = concat ks"
| "error_text (TypeError m) = m"

text \<open>The \<open>try\<close> block on the dates; the result is the kept rows with their index labels.\<close>

definition filter_future_dates ::
  "timestamp \<Rightarrow> raw_dataframe \<Rightarrow> (nat \<times> raw_row) list \<times> warning list" where
  "filter_future_dates today d =
     (let indexed = zip [0..<length (raw_rows d)] (raw_rows d) in
      if ''Date'' \<in> set (raw_columns d) then
        (case series_gt d today of
           Inl e \<Rightarrow> (indexed, [DateParsingError (error_text e)])
         | Inr future_mask \<Rightarrow>
             (let future_count = length (filter (\<lambda>b. b) future_mask) in
              (map snd (filter (\<lambda>(m, ir). \<not> m) (zip future_mask indexed)),
               if 0 < future_count then [RemovedFuture future_count] else [])))
      else (indexed, []))"

definition sanitize :: "string \<Rightarrow> string" where
  "sanitize x = map (\<lambda>c. if (of_char c :: nat) < 128 then c else CHR ''?'') x"

definition income_keywords :: "string list" where
  "income_keywords = [''salary'', ''income'', ''bonus'', ''refund'', ''deposit'']"

text \<open>\<open>str.lower().str.contains('salary|income|bonus|refund|deposit')\<close>.\<close>

definition is_income :: "string \<Rightarrow> bool" where
  "is_income c = list_ex (\<lambda>kw. str_contains kw (lower c)) income_keywords"

definition normalize_row :: "raw_dataframe \<Rightarrow> nat \<times> raw_row \<Rightarrow> row" where
  "normalize_row d ir =
     (case ir of (i, r) \<Rightarrow>
        (let cat = (if ''Category'' \<notin> set (raw_columns d) then ''Other''
                    else (case raw_Category r of None \<Rightarrow> ''Other'' | Some c \<Rightarrow> c));
             desc = (if ''Description'' \<notin> set (raw_columns d) then ''Unknown''
                     else (case raw_Description r of None \<Rightarrow> ''Unknown'' | Some t \<Rightarrow> t))
         in \<lparr> idx = i,
              Date = (if ''Date'' \<in> set (raw_columns d) then raw_Date r else None),
              Amount = (if ''Amount'' \<in> set (raw_columns d)
                        then (case raw_Amount r of None \<Rightarrow> 0 | Some a \<Rightarrow> a) else 0),
              Category = cat,
              Description = sanitize desc,
              IsIncome = is_income cat \<rparr>))"

definition add_column :: "string \<Rightarrow> string list \<Rightarrow> string list" where
  "add_column c cs = (if c \<in> set cs then cs else cs @ [c])"

definition normalized_columns :: "string list \<Rightarrow> string list" where
  "normalized_columns cs =
     add_column ''IsIncome'' (add_column ''Description'' (add_column ''Category''
       (add_column ''Amount'' cs)))"

text \<open>\<open>self.df.at[idx, 'Amount'] = v\<close>: every row labelled \<open>idx\<close> is assigned.\<close>

definition at_set_Amount :: "nat \<Rightarrow> real \<Rightarrow> row list \<Rightarrow> row list" where
  "at_set_Amount i v rs = map (\<lambda>r. if idx r = i then r\<lparr>Amount := v\<rparr> else r) rs"

text \<open>
  The sign-correction loop.  The first argument is what \<open>iterrows()\<close> still has to yield
  (the rows as they were when the loop started); the state is the table and the warnings.
\<close>

fun correct_signs :: "row list \<Rightarrow> row list \<times> warning list \<Rightarrow> row list \<times> warning list" where
  "correct_signs [] st = st"
| "correct_signs (r # rest) (rs, ws) =
     (if IsIncome r \<and> Amount r < 0 then
        correct_signs rest
          (at_set_Amount (idx r) \<bar>Amount r\<bar> rs, ws @ [CorrectedIncomeSign (idx r)])
      else if \<not> IsIncome r \<and> 0 < Amount r then
        (if \<not> str_contains ''refund'' (lower (Description r)) then
           correct_signs rest (at_set_Amount (idx r) (- \<bar>Amount r\<bar>) rs, ws)
         else correct_signs rest (rs, ws))
      else correct_signs rest (rs, ws))"

text \<open>\<open>Series.quantile(q)\<close> with linear interpolation; \<open>None\<close> is \<open>NaN\<close> (no values).\<close>

definition quantile :: "real list \<Rightarrow> real \<Rightarrow> real option" where
  "quantile xs q =
     (if xs = [] then None
      else (let s = sort xs;
                pos = of_nat (length s - 1) * q;
                lo = nat \<lfloor>pos\<rfloor>;
                hi = nat \<lceil>pos\<rceil>
            in Some (s ! lo + (s ! hi - s ! lo) * (pos - of_nat lo))))"

definition flag_outliers :: "dataframe \<times> warning list \<Rightarrow> dataframe \<times> warning list" where
  "flag_outliers st =
     (case st of (d, ws) \<Rightarrow>
        (let expense_df = filter (\<lambda>r. Amount r < 0) (rows d) in
         if 4 \<le> length expense_df then
           (case (quantile (map Amount expense_df) (25 / 100),
                  quantile (map Amount expense_df) (75 / 100)) of
              (Some q1, Some q3) \<Rightarrow>
                (let iqr = q3 - q1;
                     lower_bound = q1 - (15 / 10) * iqr;
                     extreme_outliers = filter (\<lambda>r. Amount r < lower_bound) expense_df
                 in if 0 < length extreme_outliers
                    then (d, ws @ [ExtremeOutliers (length extreme_outliers)])
                    else (d, ws))
            | _ \<Rightarrow> (d, ws))
         else (d, ws)))"

text \<open>
  \<open>df.duplicated(subset=['Date', 'Description', 'Amount'], keep=False)\<close>: pandas raises
  \<open>KeyError\<close> when a column of the subset is not in the table; \<open>NaT\<close> equals \<open>NaT\<close> here.
\<close>

definition duplicated :: "dataframe \<Rightarrow> error + bool list" where
  "duplicated d =
     (let missing = filter (\<lambda>c. c \<notin> set (columns d)) [''Date'', ''Description'', ''Amount''] in
      if missing \<noteq> [] then Inl (KeyError missing)
      else Inr (map (\<lambda>r. 2 \<le> length (filter (\<lambda>r'. Date r' = Date r \<and>
                     Description r' = Description r \<and> Amount r' = Amount r) (rows d))) (rows d)))"

definition flag_duplicates ::
  "dataframe \<times> warning list \<Rightarrow> error + dataframe \<times> warning list" where
  "flag_duplicates st =
     (case st of (d, ws) \<Rightarrow>
        (case duplicated d of
           Inl e \<Rightarrow> Inl e
         | Inr duplicates \<Rightarrow>
             (let n = length (filter (\<lambda>b. b) duplicates) in
              if 0 < n then Inr (d, ws @ [PotentialDuplicates n]) else Inr (d, ws))))"

text \<open>The table and the warnings before the two flagging steps.\<close>

definition corrected_table :: "timestamp \<Rightarrow> raw_dataframe \<Rightarrow> dataframe \<times> warning list" where
  "corrected_table today raw =
     (case filter_future_dates today raw of (kept, ws1) \<Rightarrow>
        (let normalized = map (normalize_row raw) kept in
         case correct_signs normalized (normalized, ws1) of (rs, ws2) \<Rightarrow>
           (\<lparr> columns = normalized_columns (raw_columns raw), rows = rs \<rparr>, ws2)))"

definition clean_and_validate_data ::
  "timestamp \<Rightarrow> raw_dataframe \<Rightarrow> error + dataframe \<times> warning list" where
  "clean_and_validate_data today raw = flag_duplicates (flag_outliers (corrected_table today raw))"


section \<open>Recurring payments\<close>




text \<open>
  \<open>sorted(xs, key=f, reverse=True)\<close> and \<open>xs.sort(key=f, reverse=True)\<close>: descending in the
  key, elements with equal keys in their original order.
\<close>

definition sorted_reverse :: "('a \<Rightarrow> real) \<Rightarrow> 'a list \<Rightarrow> 'a list" where
  "sorted_reverse f xs = sort_key (\<lambda>x. - f x) xs"



section \<open>Transaction ratings\<close>

definition assess :: "real \<Rightarrow> assessment" where
  "assess n =
     (if 9 / 10 \<le> n then Essential
      else if 7 / 10 \<le> n then Important
      else if 4 / 10 \<le> n then Discretionary
      else CouldCut)"

definition rate_row :: "analyzer \<Rightarrow> row \<Rightarrow> rating" where
  "rate_row self r =
     (let amt = Amount r;
          nec = get_necessity_score self (Some (Category r));
          worth = \<bar>amt\<bar> * nec;
          waste = \<bar>amt\<bar> * (1 - nec)
      in \<lparr> date = Date r,
           description = Description r,
           amount = amt,
           necessity = py_round nec 2,
           worth_it_rating = py_round worth 2,
           waste_potential = py_round waste 2,
           assessment = assess nec \<rparr>)"

definition rate_transaction_worth :: "analyzer \<Rightarrow> rating list \<times> analyzer" where
  "rate_transaction_worth self =
     (let ratings = map (rate_row self) (rows (df self))
      in (ratings, self\<lparr>transactions_with_ratings := ratings\<rparr>))"

section \<open>Spending cuts\<close>

record suggestion =
  category :: string
  sg_amount :: real
  potential_cut :: real
  sg_necessity :: real










section \<open>Questionable transactions\<close>

text \<open>The slice \<open>xs[:n]\<close>.\<close>

definition slice_to :: "int \<Rightarrow> 'a list \<Rightarrow> 'a list" where
  "slice_to n xs = (if 0 \<le> n then take (nat n) xs else take (length xs - nat (- n)) xs)"

definition get_top_questionable_transactions ::
  "analyzer \<Rightarrow> int \<Rightarrow> rating list \<times> analyzer" where
  "get_top_questionable_transactions self top_n =
     (let self' = (if transactions_with_ratings self = []
                   then snd (rate_transaction_worth self) else self);
          questionable = filter (\<lambda>t. necessity t < 70 / 100) (transactions_with_ratings self')
      in (slice_to top_n (sorted_reverse waste_potential questionable), self'))"

section \<open>Investment projection\<close>





section \<open>Auxiliary notions for the proofs\<close>

text \<open>What the sign-correction loop does to one row.\<close>

definition fix_sign :: "row \<Rightarrow> row" where
  "fix_sign r =
     (if IsIncome r \<and> Amount r < 0 then r\<lparr>Amount := \<bar>Amount r\<bar>\<rparr>
      else if \<not> IsIncome r \<and> 0 < Amount r \<and> \<not> str_contains ''refund'' (lower (Description r))
      then r\<lparr>Amount := - \<bar>Amount r\<bar>\<rparr>
      else r)"

text \<open>A parsed date cell lies strictly after the processing date.\<close>

definition is_future :: "timestamp \<Rightarrow> raw_row \<Rightarrow> bool" where
  "is_future today r = (case raw_Date r of None \<Rightarrow> False | Some t \<Rightarrow> today < t)"



section \<open>Example tables\<close>

text \<open>Dates are written as the numbers \<open>yyyymmdd\<close>; the processing date is 2024-03-01.\<close>

definition example_raw :: raw_dataframe where
  "example_raw =
     \<lparr> raw_columns = [''Date'', ''Amount'', ''Category'', ''Description''],
       tz_aware = False,
       raw_rows =
         [\<lparr> raw_Date = Some 20240105, raw_Amount = Some (- 50),
             raw_Category = Some ''Groceries'', raw_Description = Some ''Store A'' \<rparr>,
          \<lparr> raw_Date = Some 20240205, raw_Amount = Some (- 50),
             raw_Category = Some ''Groceries'', raw_Description = Some ''Store A'' \<rparr>,
          \<lparr> raw_Date = Some 20240110, raw_Amount = Some (- 2000),
             raw_Category = Some ''Salary'', raw_Description = Some ''Employer'' \<rparr>,
          \<lparr> raw_Date = Some 20240112, raw_Amount = Some 80,
             raw_Category = Some ''Dining'', raw_Description = Some ''Bistro'' \<rparr>,
          \<lparr> raw_Date = Some 20990101, raw_Amount = Some (- 1200),
             raw_Category = Some ''Rent'', raw_Description = Some ''Landlord'' \<rparr>,
          \<lparr> raw_Date = None, raw_Amount = Some (- 1200),
             raw_Category = Some ''Rent'', raw_Description = Some ''Landlord'' \<rparr>] \<rparr>"

definition example_rows :: "row list" where
  "example_rows =
     [\<lparr> idx = 0, Date = Some 20240105, Amount = - 50, Category = ''Groceries'',
         Description = ''Store A'', IsIncome = False \<rparr>,
      \<lparr> idx = 1, Date = Some 20240205, Amount = - 50, Category = ''Groceries'',
         Description = ''Store A'', IsIncome = False \<rparr>,
      \<lparr> idx = 2, Date = Some 20240110, Amount = 2000, Category = ''Salary'',
         Description = ''Employer'', IsIncome = True \<rparr>,
      \<lparr> idx = 3, Date = Some 20240112, Amount = - 80, Category = ''Dining'',
         Description = ''Bistro'', IsIncome = False \<rparr>,
      \<lparr> idx = 5, Date = None, Amount = - 1200, Category = ''Rent'',
         Description = ''Landlord'', IsIncome = False \<rparr>]"

definition example_df :: dataframe where
  "example_df =
     \<lparr> columns = [''Date'', ''Amount'', ''Category'', ''Description'', ''IsIncome''],
       rows = example_rows \<rparr>"

definition example_analyzer :: analyzer where
  "example_analyzer =
     \<lparr> df = example_df,
       warnings = [RemovedFuture 1, CorrectedIncomeSign 2, ExtremeOutliers 1],
       recurring_payments = [],
       transactions_with_ratings = [],
       necessity_scores = initial_necessity_scores \<rparr>"

text \<open>A table whose dates carry a UTC offset, with one row dated 2099-01-01.\<close>

definition example_tz_raw :: raw_dataframe where
  "example_tz_raw =
     \<lparr> raw_columns = [''Date'', ''Amount'', ''Category'', ''Description''],
       tz_aware = True,
       raw_rows =
         [\<lparr> raw_Date = Some 20990101, raw_Amount = Some (- 1200),
             raw_Category = Some ''Rent'', raw_Description = Some ''Landlord'' \<rparr>] \<rparr>"

definition example_tz_df :: dataframe where
  "example_tz_df =
     \<lparr> columns = [''Date'', ''Amount'', ''Category'', ''Description'', ''IsIncome''],
       rows = [\<lparr> idx = 0, Date = Some 20990101, Amount = - 1200, Category = ''Rent'',
                  Description = ''Landlord'', IsIncome = False \<rparr>] \<rparr>"

definition example_rating :: rating where
  "example_rating =
     \<lparr> date = Some 20240112, description = ''Bistro'', amount = - 80, necessity = 35 / 100,
       worth_it_rating = 28, waste_potential = 52, assessment = CouldCut \<rparr>"


definition example_salary_row :: row where
  "example_salary_row =
     \<lparr> idx = 2, Date = Some 20240110, Amount = 2000, Category = ''Salary'',
       Description = ''Employer'', IsIncome = True \<rparr>"

definition example_dining_row :: row where
  "example_dining_row =
     \<lparr> idx = 3, Date = Some 20240112, Amount = - 80, Category = ''Dining'',
       Description = ''Bistro'', IsIncome = False \<rparr>"


section \<open>Rounding and sorting\<close>




lemma sorted_reverse_sorted: "sorted_wrt (\<lambda>a b. f b \<le> f a) (sorted_reverse f xs)"
proof -
  have "sorted (map (\<lambda>x. - f x) (sort_key (\<lambda>x. - f x) xs))" by (rule sorted_sort_key)
  then show ?thesis by (simp add: sorted_reverse_def sorted_map)
qed

lemma set_sorted_reverse: "set (sorted_reverse f xs) = set xs"
  by (simp add: sorted_reverse_def)

lemma sorted_wrt_slice_to: "sorted_wrt P xs \<Longrightarrow> sorted_wrt P (slice_to n xs)"
  by (simp add: slice_to_def sorted_wrt_take)

lemma set_slice_to: "set (slice_to n xs) \<subseteq> set xs"
  by (auto simp: slice_to_def dest: in_set_takeD)

section \<open>The example run\<close>

lemmas example_defs =
  filter_future_dates_def series_gt_def normalize_row_def normalized_columns_def add_column_def
  sanitize_def is_income_def income_keywords_def lower_def lower_char_def at_set_Amount_def
  flag_outliers_def flag_duplicates_def duplicated_def quantile_def Let_def

lemma example_corrected_table:
  "corrected_table 20240301 example_raw = (example_df, [RemovedFuture 1, CorrectedIncomeSign 2])"
  by (simp add: corrected_table_def example_defs example_raw_def example_df_def example_rows_def)

lemma example_flag_outliers:
  "flag_outliers (example_df, ws) = (example_df, ws @ [ExtremeOutliers 1])"
  by (simp add: example_defs example_df_def example_rows_def)

lemma example_flag_duplicates: "flag_duplicates (example_df, ws) = Inr (example_df, ws)"
  by (simp add: example_defs example_df_def example_rows_def)

lemma example_validation:
  "clean_and_validate_data 20240301 example_raw =
     Inr (example_df, [RemovedFuture 1, CorrectedIncomeSign 2, ExtremeOutliers 1])"
  by (simp add: clean_and_validate_data_def example_corrected_table example_flag_outliers
      example_flag_duplicates)


lemma example_ratings:
  "fst (rate_transaction_worth example_analyzer) =
     [\<lparr> date = Some 20240105, description = ''Store A'', amount = - 50, necessity = 95 / 100,
         worth_it_rating = 95 / 2, waste_potential = 5 / 2, assessment = Essential \<rparr>,
      \<lparr> date = Some 20240205, description = ''Store A'', amount = - 50, necessity = 95 / 100,
         worth_it_rating = 95 / 2, waste_potential = 5 / 2, assessment = Essential \<rparr>,
      \<lparr> date = Some 20240110, description = ''Employer'', amount = 2000, necessity = 1,
         worth_it_rating = 2000, waste_potential = 0, assessment = Essential \<rparr>,
      example_rating,
      \<lparr> date = None, description = ''Landlord'', amount = - 1200, necessity = 95 / 100,
         worth_it_rating = 1140, waste_potential = 60, assessment = Essential \<rparr>]"
  by (simp add: rate_transaction_worth_def rate_row_def get_necessity_score_def dict_get_def
      initial_necessity_scores_def example_analyzer_def example_df_def example_rows_def
      example_rating_def assess_def py_round_def round_half_even_def lower_def lower_char_def
      Let_def)

section \<open>Validation: the table after the steps\<close>

lemma idx_fix_sign: "idx (fix_sign r) = idx r"
  by (simp add: fix_sign_def)

lemma at_set_Amount_middle:
  assumes "i \<notin> idx ` set pre" "i \<notin> idx ` set post" "idx r = i"
  shows "at_set_Amount i v (pre @ r # post) = pre @ r\<lparr>Amount := v\<rparr> # post"
proof -
  have "map (\<lambda>r. if idx r = i then r\<lparr>Amount := v\<rparr> else r) pre = pre"
    using assms(1) by (induction pre) auto
  moreover have "map (\<lambda>r. if idx r = i then r\<lparr>Amount := v\<rparr> else r) post = post"
    using assms(2) by (induction post) auto
  ultimately show ?thesis using assms(3) by (simp add: at_set_Amount_def)
qed

lemma correct_signs_rows_gen:
  "distinct (map idx (done @ todo)) \<Longrightarrow>
     fst (correct_signs todo (map fix_sign done @ todo, ws)) = map fix_sign (done @ todo)"
proof (induction todo arbitrary: "done" ws)
  case Nil
  then show ?case by simp
next
  case (Cons r rest)
  have d: "distinct (map idx ((done @ [r]) @ rest))" using Cons.prems by simp
  have pre: "idx r \<notin> idx ` set (map fix_sign done)" using Cons.prems by (auto simp: idx_fix_sign)
  have post: "idx r \<notin> idx ` set rest" using Cons.prems by auto
  have upd: "at_set_Amount (idx r) v (map fix_sign done @ r # rest)
        = map fix_sign done @ r\<lparr>Amount := v\<rparr> # rest" for v
    by (rule at_set_Amount_middle[OF pre post refl])
  consider (inc) "IsIncome r \<and> Amount r < 0"
    | (exp) "\<not> (IsIncome r \<and> Amount r < 0)" "\<not> IsIncome r \<and> 0 < Amount r"
         "\<not> str_contains ''refund'' (lower (Description r))"
    | (keep) "fix_sign r = r" "\<not> (IsIncome r \<and> Amount r < 0)"
         "\<not> (\<not> IsIncome r \<and> 0 < Amount r \<and> \<not> str_contains ''refund'' (lower (Description r)))"
    by (auto simp: fix_sign_def)
  then show ?case
  proof cases
    case inc
    then have f: "fix_sign r = r\<lparr>Amount := \<bar>Amount r\<bar>\<rparr>" by (simp add: fix_sign_def)
    have "fst (correct_signs (r # rest) (map fix_sign done @ r # rest, ws))
        = fst (correct_signs rest (map fix_sign (done @ [r]) @ rest, ws @ [CorrectedIncomeSign (idx r)]))"
      using inc by (simp add: upd f)
    also have "\<dots> = map fix_sign ((done @ [r]) @ rest)" by (rule Cons.IH[OF d])
    finally show ?thesis by simp
  next
    case exp
    then have f: "fix_sign r = r\<lparr>Amount := - \<bar>Amount r\<bar>\<rparr>" by (simp add: fix_sign_def)
    have "fst (correct_signs (r # rest) (map fix_sign done @ r # rest, ws))
        = fst (correct_signs rest (map fix_sign (done @ [r]) @ rest, ws))"
      using exp by (simp add: upd f)
    also have "\<dots> = map fix_sign ((done @ [r]) @ rest)" by (rule Cons.IH[OF d])
    finally show ?thesis by simp
  next
    case keep
    have "fst (correct_signs (r # rest) (map fix_sign done @ r # rest, ws))
        = fst (correct_signs rest (map fix_sign (done @ [r]) @ rest, ws))"
      using keep by (auto simp: keep(1))
    also have "\<dots> = map fix_sign ((done @ [r]) @ rest)" by (rule Cons.IH[OF d])
    finally show ?thesis by simp
  qed
qed

lemma correct_signs_rows:
  "distinct (map idx rs) \<Longrightarrow> fst (correct_signs rs (rs, ws)) = map fix_sign rs"
  using correct_signs_rows_gen[of "[]" rs ws] by simp

lemma correct_signs_warnings:
  "\<exists>extra. snd (correct_signs todo (rs, ws)) = ws @ extra"
proof (induction todo arbitrary: rs ws)
  case Nil
  then show ?case by simp
next
  case (Cons r rest)
  show ?case
  proof (cases "IsIncome r \<and> Amount r < 0")
    case True
    obtain extra where "snd (correct_signs rest (at_set_Amount (idx r) \<bar>Amount r\<bar> rs,
        ws @ [CorrectedIncomeSign (idx r)])) = (ws @ [CorrectedIncomeSign (idx r)]) @ extra"
      using Cons.IH by blast
    then show ?thesis using True by simp
  next
    case False
    then show ?thesis using Cons.IH by auto
  qed
qed

lemma flag_outliers_frame:
  "fst (flag_outliers (d, ws)) = d \<and> (\<exists>extra. snd (flag_outliers (d, ws)) = ws @ extra)"
  by (auto simp: flag_outliers_def Let_def split: option.splits)

lemma flag_duplicates_frame:
  "flag_duplicates (d, ws) = Inr (d', ws') \<Longrightarrow> d' = d \<and> (\<exists>extra. ws' = ws @ extra)"
  by (auto simp: flag_duplicates_def Let_def split: sum.splits if_splits)


lemma flag_steps_frame:
  assumes "flag_duplicates (flag_outliers (d, ws)) = Inr (d', ws')"
  shows "d' = d \<and> (\<exists>extra. ws' = ws @ extra)"
proof -
  obtain d1 ws1 where o: "flag_outliers (d, ws) = (d1, ws1)" by (cases "flag_outliers (d, ws)")
  from flag_outliers_frame[of d ws] o obtain e1 where 1: "d1 = d" "ws1 = ws @ e1" by auto
  from flag_duplicates_frame[of d1 ws1 d' ws'] assms o obtain e2 where "d' = d1" "ws' = ws1 @ e2"
    by auto
  with 1 show ?thesis by simp
qed

lemma flag_duplicates_Inr_Date:
  "flag_duplicates (d, ws) = Inr st \<Longrightarrow> ''Date'' \<in> set (columns d)"
  by (auto simp: flag_duplicates_def duplicated_def Let_def split: sum.splits if_splits)

lemma mask_filter:
  "length is = length rs \<Longrightarrow>
     map snd (filter (\<lambda>(m, ir). \<not> m) (zip (map f rs) (zip is rs))) =
     filter (\<lambda>(i, r). \<not> f r) (zip is rs)"
  by (induction "is" rs rule: list_induct2) auto

lemma series_gt_naive:
  "\<not> tz_aware d \<Longrightarrow> series_gt d today = Inr (map (is_future today) (raw_rows d))"
  by (simp add: series_gt_def is_future_def)

lemma filter_future_dates_naive:
  assumes "\<not> tz_aware d" "''Date'' \<in> set (raw_columns d)"
  shows "filter_future_dates today d =
     (filter (\<lambda>(i, r). \<not> is_future today r) (zip [0..<length (raw_rows d)] (raw_rows d)),
      if 0 < length (filter (is_future today) (raw_rows d))
      then [RemovedFuture (length (filter (is_future today) (raw_rows d)))] else [])"
proof -
  have "length (filter (\<lambda>b. b) (map (is_future today) (raw_rows d))) =
      length (filter (is_future today) (raw_rows d))"
    by (simp add: filter_map o_def)
  then show ?thesis
    using assms by (simp add: filter_future_dates_def series_gt_naive Let_def mask_filter)
qed

lemma filter_future_dates_kept:
  "\<exists>P. fst (filter_future_dates today d) =
     filter P (zip [0..<length (raw_rows d)] (raw_rows d))"
proof (cases "\<not> tz_aware d \<and> ''Date'' \<in> set (raw_columns d)")
  case True
  then show ?thesis using filter_future_dates_naive[of d today] by auto
next
  case False
  then have "fst (filter_future_dates today d) =
      filter (\<lambda>_. True) (zip [0..<length (raw_rows d)] (raw_rows d))"
    by (auto simp: filter_future_dates_def series_gt_def Let_def)
  then show ?thesis by blast
qed

lemma idx_normalize_row: "idx (normalize_row d ir) = fst ir"
  by (cases ir) (simp add: normalize_row_def Let_def)

lemma IsIncome_normalize_row:
  "IsIncome (normalize_row d ir) = is_income (Category (normalize_row d ir))"
  by (cases ir) (simp add: normalize_row_def Let_def)

lemma distinct_kept: "distinct (map fst (fst (filter_future_dates today d)))"
proof -
  obtain P where "fst (filter_future_dates today d) =
     filter P (zip [0..<length (raw_rows d)] (raw_rows d))"
    using filter_future_dates_kept by blast
  moreover have "distinct (map fst (zip [0..<length (raw_rows d)] (raw_rows d)))"
    by simp
  ultimately show ?thesis by (simp add: distinct_map_filter)
qed

lemma corrected_table_rows:
  "rows (fst (corrected_table today raw)) =
     map (fix_sign \<circ> normalize_row raw) (fst (filter_future_dates today raw))"
proof -
  obtain kept ws1 where k: "filter_future_dates today raw = (kept, ws1)"
    by (cases "filter_future_dates today raw")
  have "map idx (map (normalize_row raw) kept) = map fst kept"
    by (simp add: idx_normalize_row)
  moreover have "distinct (map fst kept)"
    using distinct_kept[of today raw] k by simp
  ultimately have "distinct (map idx (map (normalize_row raw) kept))"
    by (simp only:)
  then have "fst (correct_signs (map (normalize_row raw) kept) (map (normalize_row raw) kept, ws1))
      = map fix_sign (map (normalize_row raw) kept)"
    by (rule correct_signs_rows)
  then show ?thesis
    by (auto simp: corrected_table_def k Let_def split: prod.splits)
qed

lemma corrected_table_warnings:
  "\<exists>extra. snd (corrected_table today raw) = snd (filter_future_dates today raw) @ extra"
proof -
  obtain kept ws1 where k: "filter_future_dates today raw = (kept, ws1)"
    by (cases "filter_future_dates today raw")
  obtain extra where "snd (correct_signs (map (normalize_row raw) kept)
      (map (normalize_row raw) kept, ws1)) = ws1 @ extra"
    using correct_signs_warnings by blast
  then show ?thesis
    by (auto simp: corrected_table_def k Let_def split: prod.splits)
qed

lemma corrected_table_columns:
  "columns (fst (corrected_table today raw)) = normalized_columns (raw_columns raw)"
  by (simp add: corrected_table_def Let_def split: prod.splits)

lemma validated_table:
  assumes "clean_and_validate_data today raw = Inr (d, ws)"
  shows "d = fst (corrected_table today raw)"
    and "\<exists>extra. ws = snd (corrected_table today raw) @ extra"
    and "''Date'' \<in> set (raw_columns raw)"
proof -
  obtain d0 ws0 where c: "corrected_table today raw = (d0, ws0)"
    by (cases "corrected_table today raw")
  from assms c have f: "flag_duplicates (flag_outliers (d0, ws0)) = Inr (d, ws)"
    by (simp add: clean_and_validate_data_def)
  from flag_steps_frame[OF f] c show "d = fst (corrected_table today raw)"
    and "\<exists>extra. ws = snd (corrected_table today raw) @ extra" by auto
  obtain d1 ws1 where o: "flag_outliers (d0, ws0) = (d1, ws1)" by (cases "flag_outliers (d0, ws0)")
  with flag_outliers_frame[of d0 ws0] have "d1 = d0" by simp
  with f o have "''Date'' \<in> set (columns d0)" using flag_duplicates_Inr_Date by auto
  then have "''Date'' \<in> set (normalized_columns (raw_columns raw))"
    using corrected_table_columns[of today raw] c by simp
  then show "''Date'' \<in> set (raw_columns raw)"
    by (auto simp: normalized_columns_def add_column_def split: if_splits)
qed

lemma fix_sign_signs:
  "(IsIncome r \<longrightarrow> 0 \<le> Amount (fix_sign r)) \<and>
   (\<not> IsIncome r \<and> \<not> str_contains ''refund'' (lower (Description r)) \<longrightarrow> Amount (fix_sign r) \<le> 0)"
  by (auto simp: fix_sign_def)

lemma fix_sign_fields:
  "Category (fix_sign r) = Category r" "Description (fix_sign r) = Description r"
  "IsIncome (fix_sign r) = IsIncome r" "Date (fix_sign r) = Date r"
  by (simp_all add: fix_sign_def)

lemma zip_upt_filter:
  "map fst (filter (\<lambda>(i, r). P r) (zip [0..<length rs] rs)) =
     filter (\<lambda>i. P (rs ! i)) [0..<length rs]"
proof (induction rs rule: rev_induct)
  case Nil
  then show ?case by simp
next
  case (snoc x rs)
  have z: "zip [0..<length (rs @ [x])] (rs @ [x]) = zip [0..<length rs] rs @ [(length rs, x)]"
    by simp
  have "filter (\<lambda>i. P ((rs @ [x]) ! i)) [0..<length rs] = filter (\<lambda>i. P (rs ! i)) [0..<length rs]"
    by (rule filter_cong) (auto simp: nth_append)
  then show ?case
    unfolding z using snoc.IH by (simp add: nth_append)
qed

lemma zip_upt_nth: "(i, r) \<in> set (zip [0..<length rs] rs) \<Longrightarrow> i < length rs \<and> r = rs ! i"
  by (auto simp: in_set_zip)

lemma Date_normalize_row:
  "''Date'' \<in> set (raw_columns d) \<Longrightarrow> Date (normalize_row d (i, r)) = raw_Date r"
  by (simp add: normalize_row_def Let_def)

subsection \<open>Sign correction\<close>

text \<open>
  Claim C1.  When validation completes, every row of the table whose category contains one
  of the income keywords (case-insensitively) has an amount of at least 0, and every row
  that is not classified as income and whose description does not contain "refund"
  (case-insensitively) has an amount of at most 0.
\<close>

theorem sign_invariant:
  assumes "clean_and_validate_data today raw = Inr (d, ws)" and "r \<in> set (rows d)"
  shows "(is_income (Category r) \<longrightarrow> 0 \<le> Amount r) \<and>
         (\<not> is_income (Category r) \<and> \<not> str_contains ''refund'' (lower (Description r))
            \<longrightarrow> Amount r \<le> 0)"
proof -
  from validated_table(1)[OF assms(1)] assms(2) corrected_table_rows[of today raw]
  obtain ir where r: "r = fix_sign (normalize_row raw ir)" by auto
  have "IsIncome (normalize_row raw ir) = is_income (Category r)"
    by (simp add: r fix_sign_fields IsIncome_normalize_row)
  then show ?thesis
    using fix_sign_signs[of "normalize_row raw ir"] by (simp add: r fix_sign_fields)
qed

theorem sign_invariant_witness:
  "clean_and_validate_data 20240301 example_raw =
     Inr (example_df, [RemovedFuture 1, CorrectedIncomeSign 2, ExtremeOutliers 1]) \<and>
   example_salary_row \<in> set (rows example_df) \<and>
   is_income (Category example_salary_row) \<and>
   0 \<le> Amount example_salary_row \<and>
   example_dining_row \<in> set (rows example_df) \<and>
   is_income (Category example_dining_row) = False \<and>
   str_contains ''refund'' (lower (Description example_dining_row)) = False \<and>
   Amount example_dining_row \<le> 0"
proof -
  note v = example_validation
  have s: "example_salary_row \<in> set (rows example_df)"
    and d: "example_dining_row \<in> set (rows example_df)"
    by (simp_all add: example_df_def example_rows_def example_salary_row_def
        example_dining_row_def)
  have si: "is_income (Category example_salary_row)"
    and di: "is_income (Category example_dining_row) = False"
    and dr: "str_contains ''refund'' (lower (Description example_dining_row)) = False"
    by (simp_all add: example_salary_row_def example_dining_row_def is_income_def
        income_keywords_def lower_def lower_char_def)
  from sign_invariant [OF v s] si have sa: "0 \<le> Amount example_salary_row" by blast
  from sign_invariant [OF v d] di dr have da: "Amount example_dining_row \<le> 0" by simp
  from v s si sa d di dr da show ?thesis by blast
qed

subsection \<open>Future dates\<close>

text \<open>
  Claim C2, as stated, fails on a table whose dates are timezone-aware: the comparison with
  the processing date raises, the handler records a date-parsing warning, and the row dated
  2099-01-01 is still in the validated table on 2024-03-01.
\<close>

theorem future_row_survives_tz_aware:
  "clean_and_validate_data 20240301 example_tz_raw =
     Inr (example_tz_df, [DateParsingError ''Invalid comparison'']) \<and>
   map Date (rows example_tz_df) = [Some 20990101] \<and>
   (20240301 :: timestamp) < 20990101"
  by (simp add: clean_and_validate_data_def corrected_table_def example_defs example_tz_raw_def
      example_tz_df_def)

text \<open>
  Claim C2, amended.  When the parsed date column is timezone-naive and validation completes:
  no row of the table has a date after the processing date; the index labels that remain are
  exactly the positions of the rows that are not future-dated (so every future-dated row is
  removed, and rows with a null date stay); every row keeps its date; and when at least one
  row was removed, the number of removed rows is among the warnings.
\<close>

theorem future_dates_removed:
  assumes "\<not> tz_aware raw" and "clean_and_validate_data today raw = Inr (d, ws)"
  shows "(\<forall>r \<in> set (rows d). \<forall>t. Date r = Some t \<longrightarrow> t \<le> today) \<and>
         map idx (rows d) =
           filter (\<lambda>i. \<not> is_future today (raw_rows raw ! i)) [0..<length (raw_rows raw)] \<and>
         (\<forall>r \<in> set (rows d). Date r = raw_Date (raw_rows raw ! idx r)) \<and>
         (0 < length (filter (is_future today) (raw_rows raw)) \<longrightarrow>
            RemovedFuture (length (filter (is_future today) (raw_rows raw))) \<in> set ws)"
proof -
  note v = validated_table[OF assms(2)]
  let ?kept = "filter (\<lambda>(i, r). \<not> is_future today r)
                 (zip [0..<length (raw_rows raw)] (raw_rows raw))"
  have ffd: "filter_future_dates today raw =
      (?kept, if 0 < length (filter (is_future today) (raw_rows raw))
              then [RemovedFuture (length (filter (is_future today) (raw_rows raw)))] else [])"
    by (rule filter_future_dates_naive[OF assms(1) v(3)])
  have rows_d: "rows d = map (fix_sign \<circ> normalize_row raw) ?kept"
    using corrected_table_rows[of today raw] v(1) ffd by simp
  have idx_eq: "map idx (rows d) = map fst ?kept"
    by (simp add: rows_d idx_fix_sign idx_normalize_row)
  have dates: "Date r = raw_Date (raw_rows raw ! idx r) \<and> \<not> is_future today (raw_rows raw ! idx r)"
    if "r \<in> set (rows d)" for r
  proof -
    from that rows_d obtain i x where ix: "(i, x) \<in> set ?kept"
      and r: "r = fix_sign (normalize_row raw (i, x))" by auto
    from ix have "x = raw_rows raw ! i" "\<not> is_future today x"
      using zip_upt_nth[of i x "raw_rows raw"] by auto
    moreover have "idx r = i" by (simp add: r idx_fix_sign idx_normalize_row)
    moreover have "Date r = raw_Date x"
      by (simp add: r fix_sign_fields Date_normalize_row[OF v(3)])
    ultimately show ?thesis by simp
  qed
  have 1: "\<forall>r \<in> set (rows d). \<forall>t. Date r = Some t \<longrightarrow> t \<le> today"
  proof (intro ballI allI impI)
    fix r t assume "r \<in> set (rows d)" "Date r = Some t"
    with dates[of r] have "raw_Date (raw_rows raw ! idx r) = Some t"
      and "\<not> is_future today (raw_rows raw ! idx r)" by simp_all
    then show "t \<le> today" by (simp add: is_future_def)
  qed
  have 2: "map idx (rows d) =
      filter (\<lambda>i. \<not> is_future today (raw_rows raw ! i)) [0..<length (raw_rows raw)]"
    unfolding idx_eq by (rule zip_upt_filter)
  have 3: "\<forall>r \<in> set (rows d). Date r = raw_Date (raw_rows raw ! idx r)"
    using dates by blast
  have 4: "0 < length (filter (is_future today) (raw_rows raw)) \<longrightarrow>
      RemovedFuture (length (filter (is_future today) (raw_rows raw))) \<in> set ws"
  proof
    assume pos: "0 < length (filter (is_future today) (raw_rows raw))"
    obtain e1 where "snd (corrected_table today raw) = snd (filter_future_dates today raw) @ e1"
      using corrected_table_warnings by blast
    moreover obtain e2 where "ws = snd (corrected_table today raw) @ e2"
      using v(2) by blast
    ultimately show "RemovedFuture (length (filter (is_future today) (raw_rows raw))) \<in> set ws"
      using pos by (simp add: ffd)
  qed
  from 1 2 3 4 show ?thesis by blast
qed


theorem future_dates_removed_witness:
  "tz_aware example_raw = False \<and>
   clean_and_validate_data 20240301 example_raw =
     Inr (example_df, [RemovedFuture 1, CorrectedIncomeSign 2, ExtremeOutliers 1]) \<and>
   map idx (rows example_df) = [0, 1, 2, 3, 5] \<and>
   RemovedFuture 1 \<in> set [RemovedFuture 1, CorrectedIncomeSign 2, ExtremeOutliers 1]"
proof -
  have n: "\<not> tz_aware example_raw" by (simp add: example_raw_def)
  have f: "filter (is_future 20240301) (raw_rows example_raw) =
      [\<lparr> raw_Date = Some 20990101, raw_Amount = Some (- 1200),
          raw_Category = Some ''Rent'', raw_Description = Some ''Landlord'' \<rparr>]"
    by (simp add: example_raw_def is_future_def)
  have k: "filter (\<lambda>i. \<not> is_future 20240301 (raw_rows example_raw ! i))
      [0..<length (raw_rows example_raw)] = [0, 1, 2, 3, 5]"
    by (simp add: example_raw_def is_future_def upt_rec)
  from future_dates_removed [OF n example_validation]
  have "map idx (rows example_df) =
      filter (\<lambda>i. \<not> is_future 20240301 (raw_rows example_raw ! i))
        [0..<length (raw_rows example_raw)]"
    and "0 < length (filter (is_future 20240301) (raw_rows example_raw)) \<longrightarrow>
      RemovedFuture (length (filter (is_future 20240301) (raw_rows example_raw)))
        \<in> set [RemovedFuture 1, CorrectedIncomeSign 2, ExtremeOutliers 1]"
    by blast+
  then have "map idx (rows example_df) = [0, 1, 2, 3, 5]"
    and "RemovedFuture 1 \<in> set [RemovedFuture 1, CorrectedIncomeSign 2, ExtremeOutliers 1]"
    by (simp_all add: k f)
  with n example_validation show ?thesis by simp
qed

subsection \<open>Outlier and duplicate flagging\<close>

text \<open>
  Claim C9.  The outlier step followed by the duplicate step returns the table it was given,
  with no row removed and no field changed; the warnings it returns are the warnings it
  was given, possibly with further warnings appended.
\<close>

theorem flagging_frame:
  assumes "flag_duplicates (flag_outliers (d, ws)) = Inr (d', ws')"
  shows "d' = d \<and> (\<exists>extra. ws' = ws @ extra)"
  using assms by (rule flag_steps_frame)


theorem flagging_frame_witness:
  "flag_duplicates (flag_outliers
     (fst (corrected_table 20240301 example_raw), snd (corrected_table 20240301 example_raw))) =
     Inr (example_df, [RemovedFuture 1, CorrectedIncomeSign 2, ExtremeOutliers 1]) \<and>
   example_df = fst (corrected_table 20240301 example_raw)"
proof -
  have run: "flag_duplicates (flag_outliers
     (fst (corrected_table 20240301 example_raw), snd (corrected_table 20240301 example_raw))) =
     Inr (example_df, [RemovedFuture 1, CorrectedIncomeSign 2, ExtremeOutliers 1])"
    using example_validation by (simp add: clean_and_validate_data_def)
  from flagging_frame [OF run] have "example_df = fst (corrected_table 20240301 example_raw)"
    by blast
  with run show ?thesis by (rule conjI)
qed

section \<open>Necessity scoring is a case-insensitive table lookup\<close>

text \<open>
  Claim C6.  \<open>get_necessity_score\<close> reads nothing but its argument and the table: two
  category texts that differ only in the case of their letters get the same score, and a
  category whose lower-cased text is not a key of the table gets exactly 0.50.
\<close>

theorem necessity_score_lookup:
  "(lower c1 = lower c2 \<longrightarrow>
      get_necessity_score self (Some c1) = get_necessity_score self (Some c2)) \<and>
   (map_of (necessity_scores self) (lower c) = None \<longrightarrow>
      get_necessity_score self (Some c) = 50 / 100)"
  by (simp add: get_necessity_score_def dict_get_def)

theorem necessity_score_lookup_witness:
  "lower ''Rent'' = lower ''RENT'' \<and>
   map_of (necessity_scores example_analyzer) (lower ''Pets'') = None \<and>
   get_necessity_score example_analyzer (Some ''Rent'') =
     get_necessity_score example_analyzer (Some ''RENT'') \<and>
   get_necessity_score example_analyzer (Some ''Pets'') = 50 / 100"
proof -
  have same: "lower ''Rent'' = lower ''RENT''"
    by (simp add: lower_def lower_char_def)
  have absent: "map_of (necessity_scores example_analyzer) (lower ''Pets'') = None"
    by (simp add: example_analyzer_def initial_necessity_scores_def lower_def lower_char_def)
  show ?thesis
    using same absent
      necessity_score_lookup [of "''Rent''" "''RENT''" example_analyzer "''Pets''"]
    by blast
qed

section \<open>Recurring payments: groups, means and order\<close>












section \<open>Spending cuts: the exclusions\<close>














section \<open>Transaction ratings: sum and repetition\<close>



text \<open>
  Claim C8.  Rating the table a second time, on the analyzer the first call left behind,
  returns the same list in the same order; the first call leaves the table as it was.
\<close>

theorem rate_transaction_worth_twice:
  "fst (rate_transaction_worth (snd (rate_transaction_worth self))) =
     fst (rate_transaction_worth self) \<and>
   df (snd (rate_transaction_worth self)) = df self"
  by (simp add: rate_transaction_worth_def Let_def rate_row_def get_necessity_score_def)

section \<open>Questionable transactions: size, filter and order\<close>

text \<open>
  Claim C10.  With the default \<open>top_n = 8\<close>, the list of questionable transactions has at
  most 8 entries, every entry has a necessity below 0.70, and the entries are in descending
  order of their waste potential.
\<close>

theorem top_questionable_props:
  "length (fst (get_top_questionable_transactions self 8)) \<le> 8 \<and>
   (\<forall>t \<in> set (fst (get_top_questionable_transactions self 8)). necessity t < 70 / 100) \<and>
   sorted_wrt (\<lambda>a b. waste_potential b \<le> waste_potential a)
     (fst (get_top_questionable_transactions self 8))"
proof (intro conjI ballI)
  show "length (fst (get_top_questionable_transactions self 8)) \<le> 8"
    by (simp add: get_top_questionable_transactions_def Let_def slice_to_def)
next
  fix t assume "t \<in> set (fst (get_top_questionable_transactions self 8))"
  then have "t \<in> set (sorted_reverse waste_potential
       (filter (\<lambda>t. necessity t < 70 / 100) (transactions_with_ratings
          (if transactions_with_ratings self = [] then snd (rate_transaction_worth self)
           else self))))"
    using set_slice_to by (fastforce simp: get_top_questionable_transactions_def Let_def)
  then show "necessity t < 70 / 100"
    by (simp add: set_sorted_reverse)
next
  show "sorted_wrt (\<lambda>a b. waste_potential b \<le> waste_potential a)
     (fst (get_top_questionable_transactions self 8))"
    by (simp add: get_top_questionable_transactions_def Let_def sorted_wrt_slice_to
        sorted_reverse_sorted)
qed

theorem top_questionable_props_witness:
  "example_rating \<in> set (fst (get_top_questionable_transactions example_analyzer 8)) \<and>
   necessity example_rating < 70 / 100"
proof -
  have "transactions_with_ratings (snd (rate_transaction_worth example_analyzer)) =
      fst (rate_transaction_worth example_analyzer)"
    by (simp add: rate_transaction_worth_def Let_def)
  then have "fst (get_top_questionable_transactions example_analyzer 8) = [example_rating]"
    by (simp add: get_top_questionable_transactions_def example_ratings sorted_reverse_def
        slice_to_def example_rating_def Let_def)
      (simp add: example_analyzer_def)
  then have listed:
    "example_rating \<in> set (fst (get_top_questionable_transactions example_analyzer 8))"
    by simp
  with top_questionable_props [of example_analyzer] show ?thesis by blast
qed

section \<open>Investment projection without savings\<close>



end
